theory Spec2Isabelle
  imports Complex_Main "HOL-Library.Word" "HOL-Library.Log_Nat"
begin

section \<open>JavaScript values\<close>

text \<open>
  The service of \<^verbatim>\<open>src/index.ts\<close> is a TypeScript program on Node. Its handlers
  use three kinds of JavaScript value: strings, numbers and JSON objects.

  A \<^typ>\<open>string\<close> stands for a JavaScript string whose code units are below 256
  (one \<^typ>\<open>char\<close> for each code unit). A number is an IEEE binary64 value; the
  finite ones are given by the rational they denote, and the two zeros are one value
  (neither \<^verbatim>\<open>isNaN\<close> nor a lookup by id tells them apart).
\<close>

datatype jsnum = NaN | PosInf | NegInf | Fin rat

definition isNaN :: "jsnum \<Rightarrow> bool" where
  "isNaN x = (x = NaN)"

datatype json =
    JNull
  | JBool bool
  | JNum int
  | JStr string
  | JArr "json list"
  | JObj "(string \<times> json) list"

subsection \<open>\<^verbatim>\<open>Number(string)\<close>\<close>

text \<open>
  \<^verbatim>\<open>Number(req.params.id)\<close> applies the language's StringToNumber to the path
  parameter: the string is trimmed of white space, an empty rest is 0, a rest that
  matches the grammar StrNumericLiteral (a signed decimal literal with optional
  fraction and exponent, \<^verbatim>\<open>Infinity\<close>, or an unsigned binary, octal or
  hexadecimal integer literal) is its mathematical value rounded to binary64, and any
  other rest is NaN.
\<close>

definition is_digit :: "char \<Rightarrow> bool" where
  "is_digit c = (48 \<le> (of_char c :: int) \<and> (of_char c :: int) \<le> 57)"

definition digit_value :: "char \<Rightarrow> int option" where
  "digit_value c =
     (let n = (of_char c :: int) in
      if 48 \<le> n \<and> n \<le> 57 then Some (n - 48)
      else if 97 \<le> n \<and> n \<le> 102 then Some (n - 87)
      else if 65 \<le> n \<and> n \<le> 70 then Some (n - 55)
      else None)"

definition is_radix_digit :: "int \<Rightarrow> char \<Rightarrow> bool" where
  "is_radix_digit b c = (case digit_value c of None \<Rightarrow> False | Some d \<Rightarrow> d < b)"

definition digits_value :: "int \<Rightarrow> string \<Rightarrow> int" where
  "digits_value b ds =
     foldl (\<lambda>n c. n * b + (case digit_value c of None \<Rightarrow> 0 | Some d \<Rightarrow> d)) 0 ds"

text \<open>White space and line terminators below code unit 256: TAB, LF, VT, FF, CR, SP, NBSP.\<close>

definition StrWhiteSpaceChar :: "char \<Rightarrow> bool" where
  "StrWhiteSpaceChar c = ((of_char c :: int) \<in> set [9, 10, 11, 12, 13, 32, 160])"

definition trim :: "string \<Rightarrow> string" where
  "trim s = rev (dropWhile StrWhiteSpaceChar (rev (dropWhile StrWhiteSpaceChar s)))"

definition pow_int :: "rat \<Rightarrow> int \<Rightarrow> rat" where
  "pow_int b e = (if 0 \<le> e then b ^ nat e else 1 / b ^ nat (- e))"

definition DecimalDigits :: "string \<Rightarrow> int option" where
  "DecimalDigits s =
     (if s \<noteq> [] \<and> list_all is_digit s then Some (digits_value 10 s) else None)"

definition SignedInteger :: "string \<Rightarrow> int option" where
  "SignedInteger s =
     (case s of
        [] \<Rightarrow> None
      | c # t \<Rightarrow>
          if c = CHR ''+'' then DecimalDigits t
          else if c = CHR ''-'' then map_option uminus (DecimalDigits t)
          else DecimalDigits s)"

text \<open>The optional exponent part: absent is the exponent 0.\<close>

definition ExponentPart_opt :: "string \<Rightarrow> int option" where
  "ExponentPart_opt s =
     (case s of
        [] \<Rightarrow> Some 0
      | c # t \<Rightarrow> if c = CHR ''e'' \<or> c = CHR ''E'' then SignedInteger t else None)"

datatype mv = Infinite | Finite rat

definition StrUnsignedDecimalLiteral :: "string \<Rightarrow> mv option" where
  "StrUnsignedDecimalLiteral s =
     (if s = ''Infinity'' then Some Infinite
      else
        let ip = takeWhile is_digit s; r1 = dropWhile is_digit s in
        case r1 of
          [] \<Rightarrow> if ip = [] then None else Some (Finite (of_int (digits_value 10 ip)))
        | c # r \<Rightarrow>
            if c = CHR ''.'' then
              let fp = takeWhile is_digit r; r2 = dropWhile is_digit r in
              if ip = [] \<and> fp = [] then None
              else
                (case ExponentPart_opt r2 of
                   None \<Rightarrow> None
                 | Some e \<Rightarrow>
                     Some (Finite ((of_int (digits_value 10 ip)
                                    + of_int (digits_value 10 fp) / 10 ^ length fp)
                                   * pow_int 10 e)))
            else if ip = [] then None
            else
              (case ExponentPart_opt r1 of
                 None \<Rightarrow> None
               | Some e \<Rightarrow> Some (Finite (of_int (digits_value 10 ip) * pow_int 10 e))))"

text \<open>A decimal literal with its sign: the flag is \<^const>\<open>True\<close> for a leading minus.\<close>

definition StrDecimalLiteral :: "string \<Rightarrow> (bool \<times> mv) option" where
  "StrDecimalLiteral s =
     (case s of
        [] \<Rightarrow> None
      | c # t \<Rightarrow>
          if c = CHR ''+'' then map_option (Pair False) (StrUnsignedDecimalLiteral t)
          else if c = CHR ''-'' then map_option (Pair True) (StrUnsignedDecimalLiteral t)
          else map_option (Pair False) (StrUnsignedDecimalLiteral s))"

definition NonDecimalIntegerLiteral :: "string \<Rightarrow> int option" where
  "NonDecimalIntegerLiteral s =
     (case s of
        z # p # ds \<Rightarrow>
          if z = CHR ''0'' \<and> ds \<noteq> [] then
            (let b = (if p = CHR ''x'' \<or> p = CHR ''X'' then 16
                      else if p = CHR ''o'' \<or> p = CHR ''O'' then 8
                      else if p = CHR ''b'' \<or> p = CHR ''B'' then 2
                      else 0 :: int)
             in if b \<noteq> 0 \<and> list_all (is_radix_digit b) ds
                then Some (digits_value b ds) else None)
          else None
      | _ \<Rightarrow> None)"

text \<open>
  Rounding a positive rational to binary64, to nearest with ties to even: 53 bits of
  significand, exponents from -1022 (below it the spacing stays \<open>2 ^ -1074\<close>) to 1023
  (a result of \<open>2 ^ 1024\<close> or more is an infinity).
\<close>

definition round_half_even :: "rat \<Rightarrow> int" where
  "round_half_even x =
     (let f = \<lfloor>x\<rfloor>; d = x - of_int f in
      if d < 1 / 2 then f else if 1 / 2 < d then f + 1 else if even f then f else f + 1)"

definition floor_log2 :: "rat \<Rightarrow> int" where
  "floor_log2 a =
     (let (n, d) = quotient_of a; k = bitlen n - bitlen d
      in if pow_int 2 k \<le> a then k else k - 1)"

definition binary64 :: "bool \<Rightarrow> rat \<Rightarrow> jsnum" where
  "binary64 neg a =
     (if a = 0 then Fin 0
      else
        let e = max (floor_log2 a) (- 1022);
            ulp = pow_int 2 (e - 52);
            r = of_int (round_half_even (a / ulp)) * ulp
        in if 2 ^ 1024 \<le> r then (if neg then NegInf else PosInf)
           else Fin (if neg then - r else r))"

definition Number :: "string \<Rightarrow> jsnum" where
  "Number s =
     (let t = trim s in
      if t = [] then Fin 0
      else
        case NonDecimalIntegerLiteral t of
          Some n \<Rightarrow> binary64 False (of_int n)
        | None \<Rightarrow>
            (case StrDecimalLiteral t of
               None \<Rightarrow> NaN
             | Some (neg, Infinite) \<Rightarrow> (if neg then NegInf else PosInf)
             | Some (neg, Finite q) \<Rightarrow> binary64 neg q))"

subsection \<open>Decimal numerals\<close>

text \<open>
  The decimal numeral of an integer (\<^verbatim>\<open>String(i)\<close>): a minus sign for a negative
  one, then the digits without leading zeros. It is the path segment by which a
  client names an id.
\<close>

definition digit_char :: "nat \<Rightarrow> char" where
  "digit_char d = char_of (48 + int d)"

fun decimal_digits :: "nat \<Rightarrow> string" where
  "decimal_digits n =
     (if n < 10 then [digit_char n] else decimal_digits (n div 10) @ [digit_char (n mod 10)])"

declare decimal_digits.simps [simp del]

definition decimal :: "int \<Rightarrow> string" where
  "decimal i = (if i < 0 then CHR ''-'' # decimal_digits (nat (- i)) else decimal_digits (nat i))"

section \<open>The storage gateway\<close>

text \<open>
  Modelled from the spec: \<^verbatim>\<open>prisma/schema.prisma\<close> and the client generated from it
  are not among the sources. The spec gives the table
  \<^verbatim>\<open>User(id PRIMARY KEY integer, name text)\<close> and two reads, a point lookup by id
  (\<^verbatim>\<open>getById(id) \<rightarrow> User | not-found\<close>) and a full scan.

  A stored row is a record with the two columns and any further fields (the record's
  extension). An id is an integer, with no width. The table is the list of its rows
  in the storage layer's order. The fields are \<open>user_id\<close> and \<open>user_name\<close> for the
  source's \<^verbatim>\<open>id\<close> and \<^verbatim>\<open>name\<close>.
\<close>

record user =
  user_id :: int
  user_name :: string

type_synonym 'a table = "'a user_scheme list"

text \<open>
  What reaches the gateway, in order, and a promise that rejects (a fault of the
  storage connection; a table has none). The point lookup takes the number the caller
  passes as \<^verbatim>\<open>where: { id }\<close> and resolves to the row whose id is that number, or
  to null when no row has it.
\<close>

datatype query = FindUnique jsnum | FindMany

datatype failure = Storage_fault

definition findUnique :: "'a table \<Rightarrow> jsnum \<Rightarrow> failure + 'a user_scheme option" where
  "findUnique prisma x = Inr (find (\<lambda>u. Fin (of_int (user_id u)) = x) prisma)"

definition findMany :: "'a table \<Rightarrow> failure + 'a user_scheme list" where
  "findMany prisma = Inr prisma"

section \<open>REST handlers\<close>

text \<open>
  A handler either sends a response or ends with a rejected promise that nothing
  catches. Each handler returns the gateway calls it made with its outcome.
\<close>

text \<open>
  The envelope of a GraphQL response: the data, or the data with the error of a field
  that failed (the nearest nullable field is then null in the data). A field fails
  when its resolver's promise rejects or when its value cannot be serialised.
\<close>

datatype gql_error = Rejected failure | Int_cannot_represent int

datatype envelope = Data json | Errors gql_error json

datatype content = Json json | GraphQL envelope | SwaggerUi json | GraphiQL | NoContent

record response =
  status :: nat
  content :: content

datatype outcome = Responded response | Unhandled failure

text \<open>The message of the 400 response; its seventh code unit is a with acute, U+00E1.\<close>

definition ID_invalido :: string where
  "ID_invalido = ''ID inv'' @ [CHR 0xE1] @ ''lido''"

text \<open>\<^verbatim>\<open>res.json(v)\<close> sends \<open>v\<close> with the status set before, 200 when none was set.\<close>

definition res_json :: "nat \<Rightarrow> json \<Rightarrow> outcome" where
  "res_json code v = Responded \<lparr>status = code, content = Json v\<rparr>"

text \<open>The handler of \<^verbatim>\<open>GET /users/:id\<close>; \<open>param\<close> is \<^verbatim>\<open>req.params.id\<close>.\<close>

definition get_users_id :: "'a table \<Rightarrow> string \<Rightarrow> query list \<times> outcome" where
  "get_users_id prisma param =
     (let n = Number param in
      if isNaN n then ([], res_json 400 (JObj [(''error'', JStr ID_invalido)]))
      else
        ([FindUnique n],
         case findUnique prisma n of
           Inl err \<Rightarrow> Unhandled err
         | Inr (Some u) \<Rightarrow>
             res_json 200 (JObj [(''id'', JNum (user_id u)), (''name'', JStr (user_name u))])
         | Inr None \<Rightarrow> res_json 404 (JObj [(''error'', JStr ''Usuario no encontrado'')])))"

text \<open>The handler of \<^verbatim>\<open>GET /users\<close>.\<close>

definition get_users :: "'a table \<Rightarrow> query list \<times> outcome" where
  "get_users prisma =
     ([FindMany],
      case findMany prisma of
        Inl err \<Rightarrow> Unhandled err
      | Inr us \<Rightarrow>
          res_json 200
            (JArr (map (\<lambda>u. JObj [(''id'', JNum (user_id u)), (''name'', JStr (user_name u))]) us)))"

section \<open>GraphQL resolvers\<close>

type_synonym int32 = "32 word"

text \<open>
  The schema has \<^verbatim>\<open>type User { id: Int! name: String! }\<close> and
  \<^verbatim>\<open>type Query { user(id: Int!): User  users: [User!] }\<close>. The two documents
  considered are \<^verbatim>\<open>{ user(id: i) { id name } }\<close> and \<^verbatim>\<open>{ users { id name } }\<close>.
  \<^verbatim>\<open>Int\<close> is the 32-bit signed integers: the argument of \<^verbatim>\<open>user\<close> has passed the
  coercion to \<^verbatim>\<open>Int\<close>, so it is an \<^typ>\<open>int32\<close>, read as two's complement
  (\<^const>\<open>sint\<close>).
\<close>

datatype graphql_query = Query_user int32 | Query_users

text \<open>The root value: each resolver forwards to the gateway and returns its promise.\<close>

definition root_user :: "'a table \<Rightarrow> int32 \<Rightarrow> failure + 'a user_scheme option" where
  "root_user prisma i = findUnique prisma (Fin (of_int (sint i)))"

definition root_users :: "'a table \<Rightarrow> failure + 'a user_scheme list" where
  "root_users prisma = findMany prisma"

text \<open>
  Serialising a result as \<^verbatim>\<open>Int\<close>: an integer outside the 32-bit signed range is a
  field error.
\<close>

definition serialize_Int :: "int \<Rightarrow> gql_error + int" where
  "serialize_Int n =
     (if 2147483647 < n \<or> n < - 2147483648 then Inl (Int_cannot_represent n) else Inr n)"

text \<open>
  Completing a resolved \<^verbatim>\<open>User\<close> against the selection \<^verbatim>\<open>{ id name }\<close>: the
  property \<^verbatim>\<open>id\<close> serialised as \<^verbatim>\<open>Int\<close> and \<^verbatim>\<open>name\<close> as \<^verbatim>\<open>String\<close>. Both
  fields are non-null, so an error of \<^verbatim>\<open>id\<close> is an error of the whole object.
\<close>

definition select_id_name :: "'a user_scheme \<Rightarrow> gql_error + json" where
  "select_id_name u =
     (case serialize_Int (user_id u) of
        Inl e \<Rightarrow> Inl e
      | Inr n \<Rightarrow> Inr (JObj [(''id'', JNum n), (''name'', JStr (user_name u))]))"

text \<open>
  Completing the list of \<^verbatim>\<open>users\<close>, whose items are non-null: the first item that
  fails is an error of the whole list.
\<close>

fun complete_users :: "'a user_scheme list \<Rightarrow> gql_error + json list" where
  "complete_users [] = Inr []"
| "complete_users (u # us) =
     (case select_id_name u of
        Inl e \<Rightarrow> Inl e
      | Inr v \<Rightarrow> (case complete_users us of Inl e \<Rightarrow> Inl e | Inr vs \<Rightarrow> Inr (v # vs)))"

definition execute :: "'a table \<Rightarrow> graphql_query \<Rightarrow> query list \<times> envelope" where
  "execute prisma q =
     (case q of
        Query_user i \<Rightarrow>
          ([FindUnique (Fin (of_int (sint i)))],
           case root_user prisma i of
             Inl err \<Rightarrow> Errors (Rejected err) (JObj [(''user'', JNull)])
           | Inr None \<Rightarrow> Data (JObj [(''user'', JNull)])
           | Inr (Some u) \<Rightarrow>
               (case select_id_name u of
                  Inl e \<Rightarrow> Errors e (JObj [(''user'', JNull)])
                | Inr v \<Rightarrow> Data (JObj [(''user'', v)])))
      | Query_users \<Rightarrow>
          ([FindMany],
           case root_users prisma of
             Inl err \<Rightarrow> Errors (Rejected err) (JObj [(''users'', JNull)])
           | Inr us \<Rightarrow>
               (case complete_users us of
                  Inl e \<Rightarrow> Errors e (JObj [(''users'', JNull)])
                | Inr vs \<Rightarrow> Data (JObj [(''users'', JArr vs)]))))"

section \<open>Origin policy\<close>

text \<open>
  The \<^verbatim>\<open>origin\<close> option of \<^verbatim>\<open>configureCors\<close>; its argument is the request's
  \<^verbatim>\<open>Origin\<close> header, \<^const>\<open>None\<close> for \<^verbatim>\<open>undefined\<close>. \<^verbatim>\<open>!origin\<close> holds of
  \<^verbatim>\<open>undefined\<close> and of the empty string; \<^verbatim>\<open>includes\<close> compares strings for
  equality. The callback receives the error (\<^const>\<open>Inl\<close>) or the permission.
\<close>

definition allowedOrigins :: "string list" where
  "allowedOrigins = [''http://example.com'', ''https://example.com'']"

definition js_not :: "string option \<Rightarrow> bool" where
  "js_not origin = (case origin of None \<Rightarrow> True | Some s \<Rightarrow> s = [])"

definition includes_of :: "string list \<Rightarrow> string option \<Rightarrow> bool" where
  "includes_of xs origin = (case origin of None \<Rightarrow> False | Some s \<Rightarrow> s \<in> set xs)"

definition origin_callback :: "string option \<Rightarrow> string + bool" where
  "origin_callback origin =
     (if js_not origin \<or> includes_of allowedOrigins origin then Inr True
      else Inl ''No permitido por CORS'')"

definition origin_allowed :: "string option \<Rightarrow> bool" where
  "origin_allowed origin = (case origin_callback origin of Inl err \<Rightarrow> False | Inr allow \<Rightarrow> allow)"

section \<open>API documentation\<close>

definition openApiSpec :: json where
  "openApiSpec =
     JObj
      [(''openapi'', JStr ''3.0.3''),
       (''info'',
        JObj
         [(''title'', JStr ''API de Usuarios''),
          (''description'', JStr ''Microservicio REST + GraphQL con Prisma y SQLite''),
          (''version'', JStr ''1.0.0'')]),
       (''servers'', JArr [JObj [(''url'', JStr ''http://localhost:3000'')]]),
       (''paths'',
        JObj
         [(''/users/{id}'',
           JObj
            [(''get'',
              JObj
               [(''summary'', JStr ''Obtener un usuario por ID''),
                (''parameters'',
                 JArr
                  [JObj
                    [(''name'', JStr ''id''),
                     (''in'', JStr ''path''),
                     (''required'', JBool True),
                     (''schema'', JObj [(''type'', JStr ''integer'')])]]),
                (''responses'',
                 JObj
                  [(''200'',
                    JObj
                     [(''description'', JStr ''Usuario encontrado''),
                      (''content'',
                       JObj
                        [(''application/json'',
                          JObj
                           [(''schema'',
                             JObj [(''$ref'', JStr ''#/components/schemas/User'')])])])]),
                   (''404'', JObj [(''description'', JStr ''Usuario no encontrado'')])])])]),
          (''/users'',
           JObj
            [(''get'',
              JObj
               [(''summary'', JStr ''Obtener todos los usuarios''),
                (''responses'',
                 JObj
                  [(''200'',
                    JObj
                     [(''description'', JStr ''Lista de usuarios''),
                      (''content'',
                       JObj
                        [(''application/json'',
                          JObj
                           [(''schema'',
                             JObj
                              [(''type'', JStr ''array''),
                               (''items'',
                                JObj [(''$ref'', JStr ''#/components/schemas/User'')])])])])])])])])]),
       (''components'',
        JObj
         [(''schemas'',
           JObj
            [(''User'',
              JObj
               [(''type'', JStr ''object''),
                (''properties'',
                 JObj
                  [(''id'', JObj [(''type'', JStr ''integer'')]),
                   (''name'', JObj [(''type'', JStr ''string'')])])])])])]"

text \<open>Reading the document: a property of an object, and an object's keys in order.\<close>

fun property :: "string \<Rightarrow> json \<Rightarrow> json option" where
  "property k (JObj kvs) = map_of kvs k"
| "property k v = None"

fun object_keys :: "json \<Rightarrow> string list" where
  "object_keys (JObj kvs) = map fst kvs"
| "object_keys v = []"

text \<open>The status codes the document declares for an operation: the keys of its responses.\<close>

definition declared_responses :: "string \<Rightarrow> string \<Rightarrow> string list" where
  "declared_responses p m =
     (case Option.bind (Option.bind (Option.bind (property ''paths'' openApiSpec) (property p))
             (property m)) (property ''responses'') of
        None \<Rightarrow> []
      | Some rs \<Rightarrow> object_keys rs)"

section \<open>The application\<close>

text \<open>
  The constructor registers, in this order, the origin policy, the JSON body parser,
  the two REST routes, the GraphQL endpoint and the documentation. A request is given
  by its method, the segments of its path, its \<^verbatim>\<open>Origin\<close> header and, for the
  GraphQL endpoint, its document. The body parser passes every such request on.
\<close>

datatype http_method = GET | POST | OPTIONS

record request =
  req_method :: http_method
  req_path :: "string list"
  req_origin :: "string option"
  req_document :: "graphql_query option"

datatype handler = Users_id | Users | Graphql | Api_docs

text \<open>
  What the application did with a request: the handlers that ran, the gateway calls,
  and the reply. \<open>Failed\<close> is an error handed to the framework by a middleware, which
  skips every later handler; \<open>No_route\<close> is a request no layer answered.
\<close>

datatype reply = Handled outcome | Failed string | No_route

record served =
  ran :: "handler list"
  queried :: "query list"
  reply :: reply

text \<open>
  The \<^verbatim>\<open>cors\<close> middleware asks the origin callback first. On an error it hands the
  error on; otherwise it ends a preflight (\<^verbatim>\<open>OPTIONS\<close>) with
  \<^verbatim>\<open>optionsSuccessStatus\<close> and lets any other request through (\<^const>\<open>None\<close>).
\<close>

definition cors :: "request \<Rightarrow> (string + response) option" where
  "cors req =
     (case origin_callback (req_origin req) of
        Inl err \<Rightarrow> Some (Inl err)
      | Inr allow \<Rightarrow>
          if req_method req = OPTIONS then Some (Inr \<lparr>status = 200, content = NoContent\<rparr>)
          else None)"

definition run_handler :: "handler \<Rightarrow> query list \<times> outcome \<Rightarrow> served" where
  "run_handler h r = \<lparr>ran = [h], queried = fst r, reply = Handled (snd r)\<rparr>"

definition graphqlHTTP :: "'a table \<Rightarrow> graphql_query option \<Rightarrow> query list \<times> outcome" where
  "graphqlHTTP prisma doc =
     (case doc of
        None \<Rightarrow> ([], Responded \<lparr>status = 200, content = GraphiQL\<rparr>)
      | Some q \<Rightarrow>
          (let (qs, env) = execute prisma q
           in (qs, Responded \<lparr>status = 200, content = GraphQL env\<rparr>)))"

definition routes :: "'a table \<Rightarrow> request \<Rightarrow> served" where
  "routes prisma req =
     (case req_path req of
        [] \<Rightarrow> \<lparr>ran = [], queried = [], reply = No_route\<rparr>
      | p # ps \<Rightarrow>
          if req_method req = GET \<and> p = ''users'' \<and> length ps = 1 \<and> hd ps \<noteq> []
          then run_handler Users_id (get_users_id prisma (hd ps))
          else if req_method req = GET \<and> p = ''users'' \<and> ps = []
          then run_handler Users (get_users prisma)
          else if p = ''graphql''
          then run_handler Graphql (graphqlHTTP prisma (req_document req))
          else if p = ''api-docs''
          then run_handler Api_docs ([], Responded \<lparr>status = 200, content = SwaggerUi openApiSpec\<rparr>)
          else \<lparr>ran = [], queried = [], reply = No_route\<rparr>)"

definition app :: "'a table \<Rightarrow> request \<Rightarrow> served" where
  "app prisma req =
     (case cors req of
        Some (Inl err) \<Rightarrow> \<lparr>ran = [], queried = [], reply = Failed err\<rparr>
      | Some (Inr r) \<Rightarrow> \<lparr>ran = [], queried = [], reply = Handled (Responded r)\<rparr>
      | None \<Rightarrow> routes prisma req)"

section \<open>Startup\<close>

text \<open>
  \<^verbatim>\<open>start\<close> awaits the storage connection and then asks for the listener, both
  inside one \<^verbatim>\<open>try\<close> whose handler exits the process with status 1. The runtime
  decides whether the connection is rejected and whether \<^verbatim>\<open>listen\<close> throws for a
  port. The port argument is optional and 3000 when left out.
\<close>

record runtime =
  connect_rejects :: bool
  listen_throws :: "nat \<Rightarrow> bool"

datatype effect = Connect | Listen nat

datatype process = Listening nat | Exited nat

definition start :: "runtime \<Rightarrow> nat option \<Rightarrow> effect list \<times> process" where
  "start rt port_arg =
     (let port = (case port_arg of None \<Rightarrow> 3000 | Some p \<Rightarrow> p) in
      if connect_rejects rt then ([Connect], Exited 1)
      else if listen_throws rt port then ([Connect, Listen port], Exited 1)
      else ([Connect, Listen port], Listening port))"

text \<open>The entry point: \<^verbatim>\<open>await server.start(3000)\<close>.\<close>

definition main :: "runtime \<Rightarrow> effect list \<times> process" where
  "main rt = start rt (Some 3000)"

section \<open>Reading decimal numerals\<close>

text \<open>
  \<^const>\<open>Number\<close> reads the decimal numeral of an integer below \<open>2 ^ 53\<close> in absolute
  value as that integer: the numeral is a decimal literal, and the rounding to binary64
  is exact on such integers.
\<close>

lemma bitlen_1: "bitlen 1 = 1"
  by (simp add: bitlen_alt_def)

lemma floor_log2_int_le:
  assumes "0 < n" "n < 2 ^ 53"
  shows "floor_log2 (of_int n) \<le> 52"
proof -
  have "bitlen n \<le> 53" using assms by (simp add: bitlen_le_iff_power)
  then show ?thesis
    by (simp add: floor_log2_def quotient_of_int bitlen_1 Let_def)
qed

lemma round_half_even_int: "round_half_even (of_int z) = z"
  by (simp add: round_half_even_def)

lemma pow_int_below: "e \<le> 52 \<Longrightarrow> pow_int 2 (e - 52) = 1 / 2 ^ nat (52 - e)"
  by (cases "e = 52") (simp_all add: pow_int_def)

lemma binary64_int:
  assumes "0 < n" "n < 2 ^ 53"
  shows "binary64 neg (of_int n) = Fin (if neg then - of_int n else of_int n)"
proof -
  define e where "e = max (floor_log2 (of_int n)) (- 1022)"
  have e: "e \<le> 52" using floor_log2_int_le [OF assms] by (simp add: e_def)
  define m where "m = nat (52 - e)"
  have ulp: "pow_int 2 (e - 52) = 1 / 2 ^ m" using pow_int_below [OF e] by (simp add: m_def)
  have q: "(of_int n :: rat) / (1 / 2 ^ m) = of_int (n * 2 ^ m)" by simp
  have r: "of_int (round_half_even (of_int n / (1 / 2 ^ m))) * (1 / 2 ^ m) = (of_int n :: rat)"
    unfolding q round_half_even_int by simp
  have "(of_int n :: rat) < of_int (2 ^ 53)" using assms(2) by (simp only: of_int_less_iff)
  also have "\<dots> \<le> 2 ^ 1024" by simp
  finally have small: "\<not> (2 ^ 1024 \<le> (of_int n :: rat))" by simp
  have nz: "(of_int n :: rat) \<noteq> 0" using assms(1) by simp
  show ?thesis
    unfolding binary64_def Let_def e_def [symmetric] ulp r
    using small nz by simp
qed

lemma binary64_nat:
  assumes "0 \<le> n" "n < 2 ^ 53"
  shows "binary64 False (of_int n) = Fin (of_int n)"
proof (cases "n = 0")
  case True
  then show ?thesis by (simp add: binary64_def)
next
  case False
  with assms have "0 < n" by simp
  from binary64_int [OF this assms(2), of False] show ?thesis by simp
qed

lemma of_char_digit_char: "d < 10 \<Longrightarrow> (of_char (digit_char d) :: int) = 48 + int d"
  by (simp add: digit_char_def of_char_of)

lemma is_digit_digit_char: "d < 10 \<Longrightarrow> is_digit (digit_char d)"
  by (simp add: is_digit_def of_char_digit_char)

lemma digit_value_digit_char: "d < 10 \<Longrightarrow> digit_value (digit_char d) = Some (int d)"
  by (simp add: digit_value_def of_char_digit_char)

lemma decimal_digits_all: "list_all is_digit (decimal_digits n)"
proof (induction n rule: decimal_digits.induct)
  case (1 n)
  show ?case
  proof (cases "n < 10")
    case True
    then show ?thesis by (simp add: decimal_digits.simps [of n] is_digit_digit_char)
  next
    case False
    with 1 show ?thesis by (simp add: decimal_digits.simps [of n] is_digit_digit_char)
  qed
qed

lemma decimal_digits_nonempty: "decimal_digits n \<noteq> []"
  by (simp add: decimal_digits.simps [of n])

lemma digits_value_snoc:
  "digits_value b (ds @ [c]) =
     digits_value b ds * b + (case digit_value c of None \<Rightarrow> 0 | Some d \<Rightarrow> d)"
  by (simp add: digits_value_def)

lemma digits_value_decimal_digits: "digits_value 10 (decimal_digits n) = int n"
proof (induction n rule: decimal_digits.induct)
  case (1 n)
  show ?case
  proof (cases "n < 10")
    case True
    then show ?thesis
      by (simp add: decimal_digits.simps [of n] digits_value_def digit_value_digit_char)
  next
    case False
    with 1 have "digits_value 10 (decimal_digits (n div 10)) = int (n div 10)" by simp
    moreover have "int (n div 10) * 10 + int (n mod 10) = int n"
      by presburger
    ultimately show ?thesis using False
      by (simp add: decimal_digits.simps [of n] digits_value_snoc digit_value_digit_char)
  qed
qed

text \<open>What a digit is not.\<close>

lemma is_digit_not_ws: "is_digit c \<Longrightarrow> \<not> StrWhiteSpaceChar c"
  by (auto simp: is_digit_def StrWhiteSpaceChar_def)

lemma is_digit_not_letter:
  assumes "is_digit c"
  shows "c \<noteq> CHR ''+''" "c \<noteq> CHR ''-''" "c \<noteq> CHR ''I''" "c \<noteq> CHR ''x''"
    "c \<noteq> CHR ''X''" "c \<noteq> CHR ''o''" "c \<noteq> CHR ''O''" "c \<noteq> CHR ''b''"
    "c \<noteq> CHR ''B''"
  using assms by (auto simp: is_digit_def)

lemma trim_id:
  assumes "s \<noteq> []" "\<not> StrWhiteSpaceChar (hd s)" "\<not> StrWhiteSpaceChar (last s)"
  shows "trim s = s"
proof -
  from assms(1,2) have a: "dropWhile StrWhiteSpaceChar s = s"
    by (cases s) simp_all
  from assms(1) obtain xs x where s: "s = xs @ [x]"
    by (cases s rule: rev_cases) simp_all
  with assms(3) have b: "dropWhile StrWhiteSpaceChar (rev s) = rev s"
    by simp
  show ?thesis by (simp add: trim_def a b)
qed

lemma digits_hd_last:
  assumes "s \<noteq> []" "list_all is_digit s"
  shows "is_digit (hd s)" "is_digit (last s)"
  using assms by (auto simp: list_all_iff)

lemma StrUnsignedDecimalLiteral_digits:
  assumes "s \<noteq> []" "list_all is_digit s"
  shows "StrUnsignedDecimalLiteral s = Some (Finite (of_int (digits_value 10 s)))"
proof -
  have "hd s \<noteq> CHR ''I''" by (rule is_digit_not_letter(3) [OF digits_hd_last(1) [OF assms]])
  have a: "s \<noteq> ''Infinity''"
  proof
    assume "s = ''Infinity''"
    then have "hd s = CHR ''I''" by simp
    with \<open>hd s \<noteq> CHR ''I''\<close> show False by simp
  qed
  have t: "takeWhile is_digit s = s" using assms(2) by (simp add: list_all_iff)
  have d: "dropWhile is_digit s = []" using assms(2) by (simp add: list_all_iff)
  show ?thesis using a assms(1) by (simp add: StrUnsignedDecimalLiteral_def t d)
qed

lemma NonDecimalIntegerLiteral_digits:
  assumes "list_all is_digit s"
  shows "NonDecimalIntegerLiteral s = None" "NonDecimalIntegerLiteral (CHR ''-'' # s) = None"
proof -
  show "NonDecimalIntegerLiteral s = None"
  proof (cases s)
    case Nil
    then show ?thesis by (simp add: NonDecimalIntegerLiteral_def)
  next
    case (Cons z t)
    show ?thesis
    proof (cases t)
      case Nil
      with Cons show ?thesis by (simp add: NonDecimalIntegerLiteral_def)
    next
      case (Cons p ds)
      with assms \<open>s = z # t\<close> have "is_digit p" by simp
      from is_digit_not_letter(4-9) [OF this] Cons \<open>s = z # t\<close> show ?thesis
        by (simp add: NonDecimalIntegerLiteral_def)
    qed
  qed
  show "NonDecimalIntegerLiteral (CHR ''-'' # s) = None"
    by (cases s) (simp_all add: NonDecimalIntegerLiteral_def)
qed

lemma StrDecimalLiteral_digits:
  assumes "s \<noteq> []" "list_all is_digit s"
  shows "StrDecimalLiteral s = Some (False, Finite (of_int (digits_value 10 s)))"
    and "StrDecimalLiteral (CHR ''-'' # s) = Some (True, Finite (of_int (digits_value 10 s)))"
proof -
  from assms obtain c t where s: "s = c # t" by (cases s) auto
  with assms(2) have "is_digit c" by simp
  then have c: "c \<noteq> CHR ''+''" "c \<noteq> CHR ''-''" by (rule is_digit_not_letter)+
  show "StrDecimalLiteral s = Some (False, Finite (of_int (digits_value 10 s)))"
    using c StrUnsignedDecimalLiteral_digits [OF assms]
    by (simp add: StrDecimalLiteral_def s)
  show "StrDecimalLiteral (CHR ''-'' # s) = Some (True, Finite (of_int (digits_value 10 s)))"
    using StrUnsignedDecimalLiteral_digits [OF assms]
    by (simp add: StrDecimalLiteral_def)
qed

lemma trim_digits:
  assumes "s \<noteq> []" "list_all is_digit s"
  shows "trim s = s" "trim (CHR ''-'' # s) = CHR ''-'' # s"
proof -
  show "trim s = s"
    using assms(1) digits_hd_last [OF assms] by (intro trim_id) (simp_all add: is_digit_not_ws)
  have "\<not> StrWhiteSpaceChar (CHR ''-'')" by (simp add: StrWhiteSpaceChar_def)
  then show "trim (CHR ''-'' # s) = CHR ''-'' # s"
    using assms(1) digits_hd_last(2) [OF assms] by (intro trim_id) (simp_all add: is_digit_not_ws)
qed

lemma Number_decimal:
  assumes "- (2 ^ 53) < i" "i < 2 ^ 53"
  shows "Number (decimal i) = Fin (of_int i)"
proof (cases "i < 0")
  case False
  let ?s = "decimal_digits (nat i)"
  have s: "?s \<noteq> []" "list_all is_digit ?s"
    by (rule decimal_digits_nonempty, rule decimal_digits_all)
  have v: "digits_value 10 ?s = i" using False by (simp add: digits_value_decimal_digits)
  have "Number ?s = binary64 False (of_int i)"
    by (simp add: Number_def trim_digits(1) [OF s] s(1) NonDecimalIntegerLiteral_digits(1) [OF s(2)]
        StrDecimalLiteral_digits(1) [OF s] v)
  also have "\<dots> = Fin (of_int i)" using False assms(2) by (intro binary64_nat) simp_all
  finally show ?thesis using False by (simp add: decimal_def)
next
  case True
  let ?s = "decimal_digits (nat (- i))"
  have s: "?s \<noteq> []" "list_all is_digit ?s"
    by (rule decimal_digits_nonempty, rule decimal_digits_all)
  have v: "digits_value 10 ?s = - i" using True by (simp add: digits_value_decimal_digits)
  have "Number (CHR ''-'' # ?s) = binary64 True (of_int (- i))"
    by (simp add: Number_def trim_digits(2) [OF s] NonDecimalIntegerLiteral_digits(2) [OF s(2)]
        StrDecimalLiteral_digits(2) [OF s] v)
  also have "\<dots> = Fin (of_int i)"
    using True assms(1) binary64_int [of "- i" True] by simp
  finally show ?thesis using True by (simp add: decimal_def)
qed

lemma Number_decimal_int32: "Number (decimal (sint (w :: int32))) = Fin (of_int (sint w))"
proof -
  have "- (2 ^ 31) \<le> sint w" using sint_ge [of w] by simp
  moreover have "sint w < 2 ^ 31" using sint_lt [of w] by simp
  ultimately show ?thesis by (intro Number_decimal) simp_all
qed

lemma decimal_1: "decimal 1 = ''1''"
  by code_simp

lemma decimal_99: "decimal 99 = ''99''"
  by code_simp

section \<open>Evaluations and lemmas about the gateway\<close>

lemma Number_abc: "Number ''abc'' = NaN"
  by code_simp

lemma Number_fraction: "Number ''1.5'' = Fin (3 / 2)"
  by code_simp

lemma Number_hex: "Number ''0x10'' = Fin 16"
  by code_simp

text \<open>Beyond \<open>2 ^ 53\<close> the rounding to binary64 is no longer exact.\<close>

lemma Number_beyond_2_53: "Number ''9007199254740993'' = Fin 9007199254740992"
  by code_simp

text \<open>The id is the primary key: in a table with distinct ids a lookup finds the row itself.\<close>

lemma find_primary_key:
  "distinct (map user_id prisma) \<Longrightarrow> u \<in> set prisma \<Longrightarrow>
   find (\<lambda>v. user_id v = user_id u) prisma = Some u"
proof (induction prisma)
  case Nil
  then show ?case by simp
next
  case (Cons a prisma)
  show ?case
  proof (cases "user_id a = user_id u")
    case True
    with Cons.prems have "a = u" by (auto simp: image_iff)
    then show ?thesis by simp
  next
    case False
    with Cons show ?thesis by auto
  qed
qed

lemma find_absent:
  "i \<notin> user_id ` set prisma \<Longrightarrow> find (\<lambda>v. user_id v = i) prisma = None"
  by (induction prisma) auto

lemma findUnique_present:
  assumes "distinct (map user_id prisma)" "u \<in> set prisma"
  shows "findUnique prisma (Fin (of_int (user_id u))) = Inr (Some u)"
  using find_primary_key [OF assms] by (simp add: findUnique_def)

lemma findUnique_absent:
  assumes "i \<notin> user_id ` set prisma"
  shows "findUnique prisma (Fin (of_int i)) = Inr None"
  using find_absent [OF assms] by (simp add: findUnique_def)

lemma root_user_present:
  assumes "distinct (map user_id prisma)" "u \<in> set prisma" "user_id u = sint i"
  shows "root_user prisma i = Inr (Some u)"
proof -
  have "findUnique prisma (Fin (of_int (sint i))) = Inr (Some u)"
    using findUnique_present [OF assms(1,2)] by (simp only: assms(3))
  then show ?thesis by (simp only: root_user_def)
qed

lemma root_user_absent:
  assumes "sint i \<notin> user_id ` set prisma"
  shows "root_user prisma i = Inr None"
  unfolding root_user_def by (rule findUnique_absent [OF assms])

text \<open>Ids within the range of \<^verbatim>\<open>Int\<close> are serialised as they are.\<close>

lemma sint_in_Int_range: "serialize_Int (sint (i :: int32)) = Inr (sint i)"
proof -
  have "- (2 ^ 31) \<le> sint i" using sint_ge [of i] by simp
  moreover have "sint i < 2 ^ 31" using sint_lt [of i] by simp
  ultimately show ?thesis by (simp add: serialize_Int_def)
qed

lemma complete_users_in_range:
  "list_all (\<lambda>u. - 2147483648 \<le> user_id u \<and> user_id u \<le> 2147483647) us \<Longrightarrow>
   complete_users us
     = Inr (map (\<lambda>u. JObj [(''id'', JNum (user_id u)), (''name'', JStr (user_name u))]) us)"
  by (induction us) (auto simp: select_id_name_def serialize_Int_def)

text \<open>The guard of the handler: a parameter that \<^const>\<open>Number\<close> reads as NaN is answered
  with 400 and reaches no gateway call.\<close>

lemma get_users_id_NaN:
  "isNaN (Number param) \<Longrightarrow>
   get_users_id prisma param = ([], res_json 400 (JObj [(''error'', JStr ID_invalido)]))"
  by (simp add: get_users_id_def)

text \<open>A request with an allowed origin that is no preflight goes on to the routes.\<close>

lemma allowed_origin_is_routed:
  "origin_allowed (req_origin req) \<Longrightarrow> req_method req \<noteq> OPTIONS \<Longrightarrow>
   app prisma req = routes prisma req"
  by (auto simp: app_def cors_def origin_allowed_def origin_callback_def split: if_splits)

section \<open>Properties of the lookup by id\<close>

text \<open>
  C1. For every path segment of \<^verbatim>\<open>GET /users/:id\<close> that is not an integer, the
  handler should answer 400 and make no gateway call. The handler's guard is
  \<^verbatim>\<open>isNaN(Number(param))\<close>, which lets every numeric literal through: for the
  segment \<^verbatim>\<open>1.5\<close> the gateway is called with 1.5, and for \<^verbatim>\<open>0x10\<close> the gateway is
  called with 16 and the response is not a 400.
\<close>

theorem get_users_id_non_integer:
  "fst (get_users_id prisma ''1.5'') = [FindUnique (Fin (3 / 2))]
   \<and> fst (get_users_id prisma ''0x10'') = [FindUnique (Fin 16)]
   \<and> (\<forall>r. snd (get_users_id prisma ''0x10'') \<noteq> Responded \<lparr>status = 400, content = r\<rparr>)"
  by (auto simp add: get_users_id_def Number_fraction Number_hex isNaN_def findUnique_def
      res_json_def split: option.splits)

text \<open>
  For every id present in storage the lookup should answer 200 with the row. It fails
  at an id that no binary64 number is: the segment \<^verbatim>\<open>9007199254740993\<close>, the decimal
  numeral of \<open>2 ^ 53 + 1\<close>, is read as \<open>2 ^ 53\<close>, which is the id of no row here.
\<close>

theorem get_users_id_present_beyond_2_53:
  "\<lparr>user_id = 9007199254740993, user_name = ''Ada''\<rparr>
     \<in> set [\<lparr>user_id = 9007199254740993, user_name = ''Ada''\<rparr>]
   \<and> get_users_id [\<lparr>user_id = 9007199254740993, user_name = ''Ada''\<rparr>] ''9007199254740993''
       = ([FindUnique (Fin 9007199254740992)],
          Responded \<lparr>status = 404,
            content = Json (JObj [(''error'', JStr ''Usuario no encontrado'')])\<rparr>)"
  by (simp add: get_users_id_def Number_beyond_2_53 isNaN_def findUnique_def res_json_def)

text \<open>
  C3, amended. For every id present in storage and below \<open>2 ^ 53\<close> in absolute value,
  \<^verbatim>\<open>GET /users/:id\<close> answers 200 with the object of exactly the two members \<^verbatim>\<open>id\<close>
  and \<^verbatim>\<open>name\<close> of the stored row, whatever further fields the row has, after one
  lookup. The segment is the decimal numeral of the id; the same holds of any other
  segment that \<^const>\<open>Number\<close> reads as the id.
\<close>

theorem get_users_id_present:
  assumes "distinct (map user_id prisma)" and "u \<in> set prisma"
    and "(param = decimal (user_id u) \<and> - (2 ^ 53) < user_id u \<and> user_id u < 2 ^ 53)
         \<or> Number param = Fin (of_int (user_id u))"
  shows "get_users_id prisma param =
           ([FindUnique (Fin (of_int (user_id u)))],
            Responded \<lparr>status = 200,
              content = Json (JObj [(''id'', JNum (user_id u)),
                                    (''name'', JStr (user_name u))])\<rparr>)"
proof -
  from assms(3) have "Number param = Fin (of_int (user_id u))"
    using Number_decimal [of "user_id u"] by blast
  with findUnique_present [OF assms(1,2)] show ?thesis
    by (simp add: get_users_id_def isNaN_def res_json_def)
qed

theorem get_users_id_present_witness:
  "get_users_id [\<lparr>user_id = 1, user_name = ''Ada'', \<dots> = ''ada@example.com''\<rparr>] ''1'' =
     ([FindUnique (Fin 1)],
      Responded \<lparr>status = 200,
        content = Json (JObj [(''id'', JNum 1), (''name'', JStr ''Ada'')])\<rparr>)"
  using get_users_id_present
    [of "[\<lparr>user_id = 1, user_name = ''Ada'', \<dots> = ''ada@example.com''\<rparr>]"
        "\<lparr>user_id = 1, user_name = ''Ada'', \<dots> = ''ada@example.com''\<rparr>" "''1''"]
    decimal_1
  by simp

text \<open>
  For every integer that is the id of no stored row the lookup should answer 404. It
  fails at an integer that no binary64 number is: \<open>2 ^ 53 + 1\<close> is the id of no row
  here, and its decimal numeral \<^verbatim>\<open>9007199254740993\<close> is read as \<open>2 ^ 53\<close> and
  answered with the row of that id.
\<close>

theorem get_users_id_absent_beyond_2_53:
  "9007199254740993 \<notin> user_id ` set [\<lparr>user_id = 9007199254740992, user_name = ''Ada''\<rparr>]
   \<and> get_users_id [\<lparr>user_id = 9007199254740992, user_name = ''Ada''\<rparr>] ''9007199254740993''
       = ([FindUnique (Fin 9007199254740992)],
          Responded \<lparr>status = 200,
            content = Json (JObj [(''id'', JNum 9007199254740992), (''name'', JStr ''Ada'')])\<rparr>)"
  by (simp add: get_users_id_def Number_beyond_2_53 isNaN_def findUnique_def res_json_def)

text \<open>
  C4, amended. For every integer below \<open>2 ^ 53\<close> in absolute value that is the id of no
  stored row, \<^verbatim>\<open>GET /users/:id\<close> answers 404 with an error object. The segment is the
  decimal numeral of the integer; the same holds of any other segment that
  \<^const>\<open>Number\<close> reads as an integer that is the id of no stored row.
\<close>

theorem get_users_id_absent:
  assumes "i \<notin> user_id ` set prisma"
    and "(param = decimal i \<and> - (2 ^ 53) < i \<and> i < 2 ^ 53)
         \<or> Number param = Fin (of_int i)"
  shows "get_users_id prisma param =
           ([FindUnique (Fin (of_int i))],
            Responded \<lparr>status = 404,
              content = Json (JObj [(''error'', JStr ''Usuario no encontrado'')])\<rparr>)"
proof -
  from assms(2) have "Number param = Fin (of_int i)"
    using Number_decimal [of i] by blast
  with findUnique_absent [OF assms(1)] show ?thesis
    by (simp add: get_users_id_def isNaN_def res_json_def)
qed

theorem get_users_id_absent_witness:
  "get_users_id [\<lparr>user_id = 1, user_name = ''Ada''\<rparr>] ''99'' =
     ([FindUnique (Fin 99)],
      Responded \<lparr>status = 404,
        content = Json (JObj [(''error'', JStr ''Usuario no encontrado'')])\<rparr>)"
  using get_users_id_absent [of 99 "[\<lparr>user_id = 1, user_name = ''Ada''\<rparr>]" "''99''"]
    decimal_99
  by simp

section \<open>Properties of the list of users\<close>

text \<open>
  C5. For every table, \<^verbatim>\<open>GET /users\<close> answers 200 with an array that has one
  element for each stored row, in the gateway's order, each the object of the two
  members \<^verbatim>\<open>id\<close> and \<^verbatim>\<open>name\<close> of its row.
\<close>

theorem get_users_all:
  "get_users prisma =
     ([FindMany],
      Responded \<lparr>status = 200,
        content = Json (JArr (map (\<lambda>u. JObj [(''id'', JNum (user_id u)),
                                              (''name'', JStr (user_name u))]) prisma))\<rparr>)
   \<and> length (map (\<lambda>u. JObj [(''id'', JNum (user_id u)),
                             (''name'', JStr (user_name u))]) prisma) = length prisma"
  by (simp add: get_users_def findMany_def res_json_def)

theorem get_users_all_witness:
  "get_users [\<lparr>user_id = 2, user_name = ''Bob'', \<dots> = True\<rparr>,
              \<lparr>user_id = 1, user_name = ''Ada'', \<dots> = False\<rparr>] =
     ([FindMany],
      Responded \<lparr>status = 200,
        content = Json (JArr [JObj [(''id'', JNum 2), (''name'', JStr ''Bob'')],
                              JObj [(''id'', JNum 1), (''name'', JStr ''Ada'')]])\<rparr>)"
  using get_users_all [of "[\<lparr>user_id = 2, user_name = ''Bob'', \<dots> = True\<rparr>,
                            \<lparr>user_id = 1, user_name = ''Ada'', \<dots> = False\<rparr>]"]
  by simp

section \<open>Properties of the GraphQL resolvers\<close>

text \<open>
  The two protocols should return the same data for every table. They differ at a
  stored id outside the range of \<^verbatim>\<open>Int\<close>: \<^verbatim>\<open>GET /users\<close> returns the row with id
  \<open>2 ^ 31\<close>, and \<^verbatim>\<open>{ users { id name } }\<close> returns null with the error that \<^verbatim>\<open>Int\<close>
  cannot represent the id.
\<close>

theorem graphql_rest_differ_beyond_Int:
  "snd (get_users [\<lparr>user_id = 2147483648, user_name = ''Ada''\<rparr>])
     = Responded \<lparr>status = 200,
         content = Json (JArr [JObj [(''id'', JNum 2147483648), (''name'', JStr ''Ada'')]])\<rparr>
   \<and> snd (execute [\<lparr>user_id = 2147483648, user_name = ''Ada''\<rparr>] Query_users)
       = Errors (Int_cannot_represent 2147483648) (JObj [(''users'', JNull)])"
  by (simp add: get_users_def findMany_def res_json_def execute_def root_users_def
      select_id_name_def serialize_Int_def)

text \<open>
  C6, amended. For every table with distinct ids and every stored row whose id is
  within the range of \<^verbatim>\<open>Int\<close> (it is the value of an argument \<open>i\<close>), the data of
  \<^verbatim>\<open>{ user(id: i) { id name } }\<close> is the body of \<^verbatim>\<open>GET /users/:id\<close> for the decimal
  numeral of that id (or any other segment that \<^const>\<open>Number\<close> reads as it); and for
  every table whose ids are all within the range of \<^verbatim>\<open>Int\<close> the data of
  \<^verbatim>\<open>{ users { id name } }\<close> is the body of \<^verbatim>\<open>GET /users\<close>, the same records in the
  same order.
\<close>

theorem graphql_rest_consistent:
  "(distinct (map user_id prisma) \<and> u \<in> set prisma \<and> user_id u = sint i
      \<and> (param = decimal (user_id u)
           \<or> Number param = Fin (of_int (user_id u))) \<longrightarrow>
    (\<exists>body. snd (get_users_id prisma param) = Responded \<lparr>status = 200, content = Json body\<rparr>
        \<and> snd (execute prisma (Query_user i)) = Data (JObj [(''user'', body)])))
   \<and> (list_all (\<lambda>u. - 2147483648 \<le> user_id u \<and> user_id u \<le> 2147483647) prisma \<longrightarrow>
       (\<exists>body. snd (get_users prisma) = Responded \<lparr>status = 200, content = Json body\<rparr>
          \<and> snd (execute prisma Query_users) = Data (JObj [(''users'', body)])))"
proof (intro conjI impI)
  let ?v = "JObj [(''id'', JNum (user_id u)), (''name'', JStr (user_name u))]"
  assume a: "distinct (map user_id prisma) \<and> u \<in> set prisma \<and> user_id u = sint i
      \<and> (param = decimal (user_id u)
           \<or> Number param = Fin (of_int (user_id u)))"
  then have n: "Number param = Fin (of_int (user_id u))"
    using Number_decimal_int32 [of i] by auto
  from a have f: "findUnique prisma (Fin (of_int (user_id u))) = Inr (Some u)"
    using findUnique_present by blast
  from a have r: "root_user prisma i = Inr (Some u)"
    using root_user_present by blast
  from a have s: "select_id_name u = Inr ?v"
    using sint_in_Int_range [of i] by (simp add: select_id_name_def)
  have "snd (get_users_id prisma param) = Responded \<lparr>status = 200, content = Json ?v\<rparr>"
    using n f by (simp add: get_users_id_def isNaN_def res_json_def)
  moreover have "snd (execute prisma (Query_user i)) = Data (JObj [(''user'', ?v)])"
    using r s by (simp add: execute_def)
  ultimately show "\<exists>body.
        snd (get_users_id prisma param) = Responded \<lparr>status = 200, content = Json body\<rparr>
        \<and> snd (execute prisma (Query_user i)) = Data (JObj [(''user'', body)])"
    by blast
next
  let ?vs = "map (\<lambda>u. JObj [(''id'', JNum (user_id u)), (''name'', JStr (user_name u))]) prisma"
  assume "list_all (\<lambda>u. - 2147483648 \<le> user_id u \<and> user_id u \<le> 2147483647) prisma"
  then have c: "complete_users prisma = Inr ?vs" by (rule complete_users_in_range)
  have "snd (get_users prisma) = Responded \<lparr>status = 200, content = Json (JArr ?vs)\<rparr>"
    by (simp add: get_users_def findMany_def res_json_def)
  moreover have "snd (execute prisma Query_users) = Data (JObj [(''users'', JArr ?vs)])"
    using c by (simp add: execute_def root_users_def findMany_def)
  ultimately show "\<exists>body.
        snd (get_users prisma) = Responded \<lparr>status = 200, content = Json body\<rparr>
        \<and> snd (execute prisma Query_users) = Data (JObj [(''users'', body)])"
    by blast
qed

theorem graphql_rest_consistent_witness:
  "(\<exists>body. snd (get_users_id [\<lparr>user_id = 1, user_name = ''Ada''\<rparr>] ''1'')
              = Responded \<lparr>status = 200, content = Json body\<rparr>
        \<and> snd (execute [\<lparr>user_id = 1, user_name = ''Ada''\<rparr>] (Query_user 1))
              = Data (JObj [(''user'', body)]))
   \<and> (\<exists>body. snd (get_users [\<lparr>user_id = 1, user_name = ''Ada''\<rparr>])
              = Responded \<lparr>status = 200, content = Json body\<rparr>
        \<and> snd (execute [\<lparr>user_id = 1, user_name = ''Ada''\<rparr>] Query_users)
              = Data (JObj [(''users'', body)]))"
  using graphql_rest_consistent [of "[\<lparr>user_id = 1, user_name = ''Ada''\<rparr>]"
      "\<lparr>user_id = 1, user_name = ''Ada''\<rparr>" 1 "''1''"] decimal_1
  by simp

text \<open>
  C7. The resolver \<^verbatim>\<open>user\<close> is the gateway's lookup of its argument. For an id of no
  stored row it resolves to null, not to a failure, and the response is the data
  \<^verbatim>\<open>{user: null}\<close> with no errors; for the id of a stored row (in a table with
  distinct ids) it resolves to that row as stored, further fields included.
\<close>

theorem root_user_forwards:
  "root_user prisma i = findUnique prisma (Fin (of_int (sint i)))
   \<and> (sint i \<notin> user_id ` set prisma \<longrightarrow>
        root_user prisma i = Inr None
        \<and> execute prisma (Query_user i)
            = ([FindUnique (Fin (of_int (sint i)))], Data (JObj [(''user'', JNull)])))
   \<and> (distinct (map user_id prisma) \<and> u \<in> set prisma \<and> user_id u = sint i \<longrightarrow>
        root_user prisma i = Inr (Some u))"
proof (intro conjI impI)
  show "root_user prisma i = findUnique prisma (Fin (of_int (sint i)))"
    by (simp add: root_user_def)
next
  assume "sint i \<notin> user_id ` set prisma"
  then show "root_user prisma i = Inr None" by (rule root_user_absent)
next
  assume "sint i \<notin> user_id ` set prisma"
  then have "root_user prisma i = Inr None" by (rule root_user_absent)
  then show "execute prisma (Query_user i)
            = ([FindUnique (Fin (of_int (sint i)))], Data (JObj [(''user'', JNull)]))"
    by (simp add: execute_def)
next
  assume "distinct (map user_id prisma) \<and> u \<in> set prisma \<and> user_id u = sint i"
  then show "root_user prisma i = Inr (Some u)"
    using root_user_present by blast
qed

theorem root_user_forwards_witness:
  "root_user [\<lparr>user_id = 1, user_name = ''Ada'', \<dots> = ''ada@example.com''\<rparr>] 99 = Inr None
   \<and> execute [\<lparr>user_id = 1, user_name = ''Ada'', \<dots> = ''ada@example.com''\<rparr>] (Query_user 99)
       = ([FindUnique (Fin 99)], Data (JObj [(''user'', JNull)]))
   \<and> root_user [\<lparr>user_id = 1, user_name = ''Ada'', \<dots> = ''ada@example.com''\<rparr>] 1
       = Inr (Some \<lparr>user_id = 1, user_name = ''Ada'', \<dots> = ''ada@example.com''\<rparr>)"
  using root_user_forwards
      [of "[\<lparr>user_id = 1, user_name = ''Ada'', \<dots> = ''ada@example.com''\<rparr>]" 99
          "\<lparr>user_id = 1, user_name = ''Ada'', \<dots> = ''ada@example.com''\<rparr>", THEN conjunct2]
    root_user_forwards
      [of "[\<lparr>user_id = 1, user_name = ''Ada'', \<dots> = ''ada@example.com''\<rparr>]" 1
          "\<lparr>user_id = 1, user_name = ''Ada'', \<dots> = ''ada@example.com''\<rparr>", THEN conjunct2]
  by simp

section \<open>Properties of the origin policy\<close>

text \<open>
  The policy as "absent, or one of the two strings" fails at the empty string, which
  \<^verbatim>\<open>!origin\<close> accepts although it is neither absent nor in the list.
\<close>

theorem origin_policy_empty_origin:
  "origin_allowed (Some '''') \<and> Some '''' \<noteq> (None :: string option)
   \<and> '''' \<noteq> ''http://example.com'' \<and> '''' \<noteq> ''https://example.com''"
  by (simp add: origin_allowed_def origin_callback_def js_not_def)

text \<open>
  C2, amended. The policy allows an origin exactly when it is absent, is the empty
  string, or is equal to \<^verbatim>\<open>http://example.com\<close> or to \<^verbatim>\<open>https://example.com\<close>;
  every other origin is denied, with no wildcard, subdomain or pattern matching.
\<close>

theorem origin_policy:
  "origin_allowed origin \<longleftrightarrow>
     origin = None \<or> origin = Some '''' \<or> origin = Some ''http://example.com''
     \<or> origin = Some ''https://example.com''"
  by (cases origin)
     (auto simp: origin_allowed_def origin_callback_def js_not_def includes_of_def
        allowedOrigins_def)

theorem origin_policy_witness:
  "origin_allowed (Some ''https://example.com'') \<and> \<not> origin_allowed (Some ''http://evil.com'')
   \<and> \<not> origin_allowed (Some ''https://api.example.com'') \<and> origin_allowed None"
  using origin_policy [of "Some ''https://example.com''"]
    origin_policy [of "Some ''http://evil.com''"]
    origin_policy [of "Some ''https://api.example.com''"] origin_policy [of None]
  by simp

text \<open>
  C8. A request whose origin the policy denies is rejected before any route handler:
  no REST, GraphQL or documentation handler runs, the gateway is not called, and the
  reply is the policy's error handed to the framework.
\<close>

theorem denied_origin_runs_no_handler:
  assumes "\<not> origin_allowed (req_origin req)"
  shows "app prisma req = \<lparr>ran = [], queried = [], reply = Failed ''No permitido por CORS''\<rparr>"
  using assms
  by (auto simp: app_def cors_def origin_allowed_def origin_callback_def split: if_splits)

theorem denied_origin_runs_no_handler_witness:
  "\<not> origin_allowed (Some ''http://evil.com'')
   \<and> app [\<lparr>user_id = 1, user_name = ''Ada''\<rparr>]
        \<lparr>req_method = GET, req_path = [''users'', ''1''], req_origin = Some ''http://evil.com'',
          req_document = None\<rparr>
      = \<lparr>ran = [], queried = [], reply = Failed ''No permitido por CORS''\<rparr>"
proof -
  have h: "\<not> origin_allowed (req_origin \<lparr>req_method = GET, req_path = [''users'', ''1''],
             req_origin = Some ''http://evil.com'', req_document = None\<rparr>)"
    by (simp add: origin_allowed_def origin_callback_def js_not_def includes_of_def
        allowedOrigins_def)
  show ?thesis
    using h denied_origin_runs_no_handler [OF h, of "[\<lparr>user_id = 1, user_name = ''Ada''\<rparr>]"]
    by simp
qed

section \<open>Properties of the startup\<close>

text \<open>
  C9. If the storage connection is rejected, \<^verbatim>\<open>start\<close> exits the process with a
  non-zero status and never asks for the listener. If it is established, \<^verbatim>\<open>start\<close>
  asks for the listener on the given port, 3000 when none is given, and unless that
  call throws the process is listening on that port.
\<close>

theorem start_connects_then_listens:
  "(connect_rejects rt \<longrightarrow>
      fst (start rt port_arg) = [Connect]
      \<and> (\<exists>c. snd (start rt port_arg) = Exited c \<and> c \<noteq> 0))
   \<and> (\<not> connect_rejects rt \<longrightarrow>
        fst (start rt port_arg)
          = [Connect, Listen (case port_arg of None \<Rightarrow> 3000 | Some p \<Rightarrow> p)]
        \<and> (\<not> listen_throws rt (case port_arg of None \<Rightarrow> 3000 | Some p \<Rightarrow> p) \<longrightarrow>
             snd (start rt port_arg)
               = Listening (case port_arg of None \<Rightarrow> 3000 | Some p \<Rightarrow> p)))"
  by (simp add: start_def Let_def)

theorem start_connects_then_listens_witness:
  "start \<lparr>connect_rejects = True, listen_throws = (\<lambda>p. False)\<rparr> (Some 8080)
     = ([Connect], Exited 1)
   \<and> start \<lparr>connect_rejects = False, listen_throws = (\<lambda>p. False)\<rparr> None
       = ([Connect, Listen 3000], Listening 3000)
   \<and> start \<lparr>connect_rejects = False, listen_throws = (\<lambda>p. False)\<rparr> (Some 8080)
       = ([Connect, Listen 8080], Listening 8080)"
  using start_connects_then_listens
      [of "\<lparr>connect_rejects = True, listen_throws = (\<lambda>p. False)\<rparr>" "Some 8080"]
    start_connects_then_listens
      [of "\<lparr>connect_rejects = False, listen_throws = (\<lambda>p. False)\<rparr>" None]
    start_connects_then_listens
      [of "\<lparr>connect_rejects = False, listen_throws = (\<lambda>p. False)\<rparr>" "Some 8080"]
  by (auto simp: prod_eq_iff start_def)

section \<open>Properties of the documentation\<close>

text \<open>
  C10. The document that \<^verbatim>\<open>/api-docs\<close> serves declares the responses 200 and 404
  for \<^verbatim>\<open>GET /users/{id}\<close> and no others, so it omits the 400 that the handler
  sends, for instance for the segment \<^verbatim>\<open>abc\<close>.
\<close>

theorem openapi_omits_400:
  "app prisma \<lparr>req_method = GET, req_path = [''api-docs''], req_origin = None,
                req_document = None\<rparr>
     = \<lparr>ran = [Api_docs], queried = [],
        reply = Handled (Responded \<lparr>status = 200, content = SwaggerUi openApiSpec\<rparr>)\<rparr>
   \<and> declared_responses ''/users/{id}'' ''get'' = [''200'', ''404'']
   \<and> ''400'' \<notin> set (declared_responses ''/users/{id}'' ''get'')
   \<and> get_users_id prisma ''abc''
       = ([], Responded \<lparr>status = 400, content = Json (JObj [(''error'', JStr ID_invalido)])\<rparr>)"
proof (intro conjI)
  show "app prisma \<lparr>req_method = GET, req_path = [''api-docs''], req_origin = None,
                req_document = None\<rparr>
     = \<lparr>ran = [Api_docs], queried = [],
        reply = Handled (Responded \<lparr>status = 200, content = SwaggerUi openApiSpec\<rparr>)\<rparr>"
    by (simp add: app_def cors_def origin_callback_def js_not_def routes_def run_handler_def)
  show r: "declared_responses ''/users/{id}'' ''get'' = [''200'', ''404'']"
    by (simp add: declared_responses_def openApiSpec_def)
  show "''400'' \<notin> set (declared_responses ''/users/{id}'' ''get'')"
    unfolding r by simp
  show "get_users_id prisma ''abc''
       = ([], Responded \<lparr>status = 400, content = Json (JObj [(''error'', JStr ID_invalido)])\<rparr>)"
    using get_users_id_NaN [of "''abc''" prisma] by (simp add: Number_abc isNaN_def res_json_def)
qed

end
